theory Spec2Isabelle
  imports Complex_Main
begin

section \<open>Python values that cross the service\<close>

text \<open>
  Every value the handler inspects comes out of a JSON decoder, so it is one of the seven
  Python types below. \<open>JFloat\<close> carries the value of the decoded float; \<open>JObj\<close> is the
  decoded \<open>dict\<close>, read with \<open>map_of\<close>.
\<close>

datatype json =
    JNull
  | JBool bool
  | JInt int
  | JFloat rat
  | JStr string
  | JList "json list"
  | JObj "(string \<times> json) list"

text \<open>
  An exception is kept with the text \<open>str(e)\<close> gives. \<open>ExternalError\<close> stands for
  whatever the HTTP client, the JSON decoder or the file system raise.
\<close>

datatype py_exn =
    KeyError string
  | IndexError string
  | TypeError string
  | AttributeError string
  | ExternalError string

fun str_exn :: "py_exn \<Rightarrow> string" where
  "str_exn (KeyError m) = m"
| "str_exn (IndexError m) = m"
| "str_exn (TypeError m) = m"
| "str_exn (AttributeError m) = m"
| "str_exn (ExternalError m) = m"

definition squote :: "string \<Rightarrow> string" where
  "squote s = CHR 0x27 # s @ [CHR 0x27]"

fun type_name :: "json \<Rightarrow> string" where
  "type_name JNull = ''NoneType''"
| "type_name (JBool b) = ''bool''"
| "type_name (JInt i) = ''int''"
| "type_name (JFloat r) = ''float''"
| "type_name (JStr s) = ''str''"
| "type_name (JList xs) = ''list''"
| "type_name (JObj kvs) = ''dict''"

text \<open>Truth value of an object, as \<open>not x\<close> and \<open>x or y\<close> test it.\<close>

fun truthy :: "json \<Rightarrow> bool" where
  "truthy JNull = False"
| "truthy (JBool b) = b"
| "truthy (JInt i) = (i \<noteq> 0)"
| "truthy (JFloat r) = (r \<noteq> 0)"
| "truthy (JStr s) = (s \<noteq> [])"
| "truthy (JList xs) = (xs \<noteq> [])"
| "truthy (JObj kvs) = (kvs \<noteq> [])"

definition py_or :: "json \<Rightarrow> json \<Rightarrow> json" where
  "py_or a b = (if truthy a then a else b)"

text \<open>\<open>data.get(key, default)\<close>: only a \<open>dict\<close> has the method.\<close>

fun dict_get :: "json \<Rightarrow> string \<Rightarrow> json \<Rightarrow> py_exn + json" where
  "dict_get (JObj kvs) k d = Inr (case map_of kvs k of Some v \<Rightarrow> v | None \<Rightarrow> d)"
| "dict_get v k d =
     Inl (AttributeError (squote (type_name v) @ '' object has no attribute '' @ squote ''get''))"

text \<open>\<open>obj[key]\<close> with a string key.\<close>

fun getitem :: "json \<Rightarrow> string \<Rightarrow> py_exn + json" where
  "getitem (JObj kvs) k =
     (case map_of kvs k of Some v \<Rightarrow> Inr v | None \<Rightarrow> Inl (KeyError (squote k)))"
| "getitem (JList xs) k = Inl (TypeError ''list indices must be integers or slices, not str'')"
| "getitem (JStr s) k = Inl (TypeError (''string indices must be integers, not '' @ squote ''str''))"
| "getitem v k = Inl (TypeError (squote (type_name v) @ '' object is not subscriptable''))"

text \<open>
  \<open>obj[0]\<close>. The keys of a decoded JSON object are strings, so the integer key is never
  there.
\<close>

fun getitem0 :: "json \<Rightarrow> py_exn + json" where
  "getitem0 (JList []) = Inl (IndexError ''list index out of range'')"
| "getitem0 (JList (x # xs)) = Inr x"
| "getitem0 (JStr []) = Inl (IndexError ''string index out of range'')"
| "getitem0 (JStr (c # cs)) = Inr (JStr [c])"
| "getitem0 (JObj kvs) = Inl (KeyError ''0'')"
| "getitem0 v = Inl (TypeError (squote (type_name v) @ '' object is not subscriptable''))"

definition bind_exn :: "py_exn + 'a \<Rightarrow> ('a \<Rightarrow> py_exn + 'b) \<Rightarrow> py_exn + 'b" where
  "bind_exn m f = (case m of Inl e \<Rightarrow> Inl e | Inr x \<Rightarrow> f x)"

section \<open>Configuration and the style table\<close>

text \<open>
  \<open>LEONARDO_API_KEY\<close> is \<open>os.getenv\<close>'s result, \<open>None\<close> when the variable is unset.
  \<open>py_str\<close> is Python's \<open>str\<close> on the objects that are not strings (the interpreter's
  own rendering of numbers, \<open>None\<close>, lists and dicts); \<open>index_html\<close> is what reading
  the file \<open>index.html\<close> yields.
\<close>

record env =
  LEONARDO_API_KEY :: "string option"
  py_str :: "json \<Rightarrow> string"
  index_html :: "py_exn + string"

definition LEONARDO_BASE_URL :: string where
  "LEONARDO_BASE_URL = ''https://cloud.leonardo.ai/api/rest/v1''"

definition nl :: string where
  "nl = [CHR 0x0A]"

definition ART_STYLE_PROMPTS :: "(string \<times> string) list" where
  "ART_STYLE_PROMPTS =
   [(''pixel'',
       ''16-bit pixel art style, retro gaming aesthetic, clean pixelated edges,'' @ nl @
       ''        reminiscent of classic video games, limited color palette, sharp pixels''),
    (''anime'',
       ''anime art style, manga-inspired, cel-shaded, vibrant colors,'' @ nl @
       ''        kawaii aesthetic, clean linework, anime character design''),
    (''3d'',
       ''3D rendered style, volumetric lighting, subsurface scattering,'' @ nl @
       ''        realistic textures, ambient occlusion, ray-traced reflections''),
    (''minimalist'',
       ''minimalist design, clean lines, simple shapes,'' @ nl @
       ''        limited color palette, negative space, geometric composition''),
    (''cartoon'',
       ''cartoon style, bold outlines, vibrant colors,'' @ nl @
       ''        exaggerated features, playful design, smooth shading''),
    (''realistic'',
       ''realistic digital painting, detailed textures,'' @ nl @
       ''        professional illustration, photorealistic elements, detailed shading'')]"

text \<open>
  \<open>ART_STYLE_PROMPTS.get(art_style, ART_STYLE_PROMPTS['pixel'])\<close>. The default is
  evaluated first and \<open>pixel\<close> is a key. The lookup hashes its argument: a list or a dict
  raises; any other object that is not a string equals no key.
\<close>

definition style_lookup :: "json \<Rightarrow> py_exn + string" where
  "style_lookup art_style =
     (case map_of ART_STYLE_PROMPTS ''pixel'' of
        None \<Rightarrow> Inl (KeyError (squote ''pixel''))
      | Some dflt \<Rightarrow>
          (case art_style of
             JList xs \<Rightarrow> Inl (TypeError (''unhashable type: '' @ squote ''list''))
           | JObj kvs \<Rightarrow> Inl (TypeError (''unhashable type: '' @ squote ''dict''))
           | JStr s \<Rightarrow> Inr (case map_of ART_STYLE_PROMPTS s of Some p \<Rightarrow> p | None \<Rightarrow> dflt)
           | _ \<Rightarrow> Inr dflt))"

text \<open>A replacement field of an f-string: a string is inserted as it is.\<close>

definition fmt :: "env \<Rightarrow> json \<Rightarrow> string" where
  "fmt cfg v = (case v of JStr s \<Rightarrow> s | _ \<Rightarrow> py_str cfg v)"

definition base_prompt :: "env \<Rightarrow> json \<Rightarrow> json \<Rightarrow> string \<Rightarrow> string" where
  "base_prompt cfg generated_name idea style_prompt =
     ''detailed cryptocurrency mascot logo of a '' @ fmt cfg (py_or generated_name idea) @ '','' @ nl @
     ''            '' @ style_prompt @ '','' @ nl @
     ''            centered composition, clean vectorized style,'' @ nl @
     ''            suitable for crypto token, professional logo design''"

definition request_headers :: "env \<Rightarrow> (string \<times> string) list" where
  "request_headers cfg =
     [(''accept'', ''application/json''),
      (''authorization'',
         ''Bearer '' @ (case LEONARDO_API_KEY cfg of None \<Rightarrow> ''None'' | Some k \<Rightarrow> k)),
      (''content-type'', ''application/json'')]"

definition payload :: "string \<Rightarrow> json" where
  "payload prompt = JObj
     [(''height'', JInt 512),
      (''width'', JInt 512),
      (''prompt'', JStr prompt),
      (''modelId'', JStr ''6bef9f1b-29cb-40c7-b9df-32b51c1f67d3''),
      (''negative_prompt'', JStr ''text, watermark, logo, words, letters, signature, realistic, photographic, abstract shapes, blurry, low quality''),
      (''num_images'', JInt 1),
      (''guidance_scale'', JInt 8),
      (''init_strength'', JFloat (4 / 10))]"

section \<open>Requests, responses and the remote service\<close>

text \<open>
  \<open>json_body\<close> is what \<open>await request.json()\<close> yields: the decoded body, or the
  decoder's exception.
\<close>

record request =
  req_method :: string
  req_path :: string
  json_body :: "py_exn + json"

text \<open>
  A \<open>response\<close> is the object a handler returns: its status, its body (for a text body
  the content type comes first) and the headers set on it. How the framework writes it to
  the client is not modelled; it sends a response whose status is 204 or 304 without the
  body.
\<close>

datatype body = NoBody | TextBody string string | JsonBody json

record response =
  status :: int
  body :: body
  headers :: "string \<rightharpoonup> string"

definition json_response :: "json \<Rightarrow> int \<Rightarrow> response" where
  "json_response data st = \<lparr>status = st, body = JsonBody data, headers = Map.empty\<rparr>"

definition text_response :: "string \<Rightarrow> string \<Rightarrow> int \<Rightarrow> response" where
  "text_response txt ctype st = \<lparr>status = st, body = TextBody ctype txt, headers = Map.empty\<rparr>"

definition empty_response :: response where
  "empty_response = \<lparr>status = 200, body = NoBody, headers = Map.empty\<rparr>"

text \<open>
  The remote service is an opaque collaborator: \<open>post_reply\<close> is the outcome of the
  submission and \<open>poll_reply i\<close> the outcome of the status query number \<open>i\<close>, counted
  from 0. An outcome is an exception of the client, or a reply with its status, its text
  and what decoding that text as JSON yields.
\<close>

record reply =
  r_status :: int
  r_text :: string
  r_json :: "py_exn + json"

record remote =
  post_reply :: "py_exn + reply"
  poll_reply :: "nat \<Rightarrow> py_exn + reply"

datatype out_request =
    POST string "(string \<times> string) list" json
  | GET string "(string \<times> string) list"

section \<open>The handlers\<close>

definition serve_html :: "env \<Rightarrow> response" where
  "serve_html cfg =
     (case index_html cfg of
        Inr txt \<Rightarrow> text_response txt ''text/html'' 200
      | Inl e \<Rightarrow> text_response (str_exn e) ''text/plain'' 500)"

definition ping :: response where
  "ping = json_response (JObj [(''status'', JStr ''ok''), (''message'', JStr ''Server is running'')]) 200"

definition test :: response where
  "test = json_response (JObj [(''status'', JStr ''success''), (''message'', JStr ''Test successful'')]) 200"

text \<open>
  One pass through the body of the poll loop, up to the wait: \<open>Inl e\<close> when a statement
  raises, \<open>Inr (Some url)\<close> when the handler returns the image, \<open>Inr None\<close> when the
  loop goes on.
\<close>

definition poll_attempt :: "py_exn + reply \<Rightarrow> py_exn + json option" where
  "poll_attempt outcome =
     bind_exn outcome (\<lambda>check_response.
       if r_status check_response = 200 then
         bind_exn (r_json check_response) (\<lambda>result.
         bind_exn (getitem result ''generations_by_pk'') (\<lambda>g.
         bind_exn (getitem g ''status'') (\<lambda>st.
           if st = JStr ''COMPLETE'' then
             bind_exn (getitem result ''generations_by_pk'') (\<lambda>g'.
             bind_exn (getitem g' ''generated_images'') (\<lambda>imgs.
             bind_exn (getitem0 imgs) (\<lambda>img.
             bind_exn (getitem img ''url'') (\<lambda>image_url. Inr (Some image_url)))))
           else Inr None)))
       else Inr None)"

text \<open>
  \<open>for _ in range(n)\<close> from attempt \<open>i\<close> on; the second component lists the status
  queries issued. The one-second wait between attempts changes no value and is left out.
\<close>

fun poll_loop ::
  "(nat \<Rightarrow> py_exn + reply) \<Rightarrow> out_request \<Rightarrow> nat \<Rightarrow> nat \<Rightarrow> (py_exn + json option) \<times> out_request list"
where
  "poll_loop polls q 0 i = (Inr None, [])"
| "poll_loop polls q (Suc n) i =
     (case poll_attempt (polls i) of
        Inl e \<Rightarrow> (Inl e, [q])
      | Inr (Some image_url) \<Rightarrow> (Inr (Some image_url), [q])
      | Inr None \<Rightarrow> (case poll_loop polls q n (Suc i) of (res, tr) \<Rightarrow> (res, q # tr)))"

text \<open>The two requests the handler sends: \<open>session.post\<close> and \<open>session.get\<close>.\<close>

definition submission :: "env \<Rightarrow> string \<Rightarrow> out_request" where
  "submission cfg prompt =
     POST (LEONARDO_BASE_URL @ ''/generations'') (request_headers cfg) (payload prompt)"

definition status_query :: "env \<Rightarrow> json \<Rightarrow> out_request" where
  "status_query cfg generation_id =
     GET (LEONARDO_BASE_URL @ ''/generations/'' @ fmt cfg generation_id) (request_headers cfg)"

text \<open>
  The statements of the inner \<open>try\<close>, from the submission to the timeout response. The
  \<open>print\<close> calls write to standard output only and are left out; an exception raised
  while the submission is sent or its text is read is the \<open>Inl\<close> case of \<open>post_reply\<close>.
\<close>

definition api_call :: "env \<Rightarrow> remote \<Rightarrow> string \<Rightarrow> (py_exn + response) \<times> out_request list" where
  "api_call cfg rem prompt =
     (case post_reply rem of
        Inl e \<Rightarrow> (Inl e, [submission cfg prompt])
      | Inr resp \<Rightarrow>
          if r_status resp \<noteq> 200 then
            (Inr (json_response
                    (JObj [(''error'', JStr (''Failed to generate image: '' @ r_text resp))])
                    (r_status resp)),
             [submission cfg prompt])
          else
            (case bind_exn (r_json resp) (\<lambda>generation_data.
                  bind_exn (getitem generation_data ''sdGenerationJob'') (\<lambda>job.
                    getitem job ''generationId'')) of
               Inl e \<Rightarrow> (Inl e, [submission cfg prompt])
             | Inr generation_id \<Rightarrow>
                 (case poll_loop (poll_reply rem) (status_query cfg generation_id) 30 0 of
                    (Inl e, tr) \<Rightarrow> (Inl e, submission cfg prompt # tr)
                  | (Inr (Some image_url), tr) \<Rightarrow>
                      (Inr (json_response
                              (JObj [(''success'', JBool True), (''imageUrl'', image_url)]) 200),
                       submission cfg prompt # tr)
                  | (Inr None, tr) \<Rightarrow>
                      (Inr (json_response
                              (JObj [(''error'', JStr ''Timeout waiting for image'')]) 500),
                       submission cfg prompt # tr))))"

text \<open>The inner \<open>try\<close> with its handler.\<close>

definition api_try :: "env \<Rightarrow> remote \<Rightarrow> string \<Rightarrow> response \<times> out_request list" where
  "api_try cfg rem prompt =
     (case api_call cfg rem prompt of
        (Inr resp, tr) \<Rightarrow> (resp, tr)
      | (Inl api_error, tr) \<Rightarrow>
          (json_response
             (JObj [(''error'', JStr (''API request failed: '' @ str_exn api_error))]) 500,
           tr))"

text \<open>The statements of the outer \<open>try\<close>.\<close>

definition generate_body :: "env \<Rightarrow> remote \<Rightarrow> request \<Rightarrow> py_exn + response \<times> out_request list" where
  "generate_body cfg rem req =
     bind_exn (json_body req) (\<lambda>data.
     bind_exn (dict_get data ''idea'' JNull) (\<lambda>idea.
     bind_exn (dict_get data ''generatedName'' (JStr '''')) (\<lambda>generated_name.
     bind_exn (dict_get data ''isRegeneration'' (JBool False)) (\<lambda>is_regeneration.
     bind_exn (dict_get data ''artStyle'' (JStr ''pixel'')) (\<lambda>art_style.
       if \<not> truthy idea then
         Inr (json_response (JObj [(''error'', JStr ''No idea provided'')]) 400, [])
       else
         bind_exn (style_lookup art_style) (\<lambda>style_prompt.
           Inr (api_try cfg rem (base_prompt cfg generated_name idea style_prompt))))))))"

text \<open>
  The handler of \<open>POST /api/generate\<close>: the response it returns, and the requests sent
  to the remote service in the order they were sent.
\<close>

definition generate :: "env \<Rightarrow> remote \<Rightarrow> request \<Rightarrow> response \<times> out_request list" where
  "generate cfg rem req =
     (case generate_body cfg rem req of
        Inr out \<Rightarrow> out
      | Inl e \<Rightarrow> (json_response (JObj [(''error'', JStr (str_exn e))]) 500, []))"

section \<open>The CORS middleware\<close>

definition cors :: "response \<Rightarrow> response" where
  "cors resp = resp\<lparr>headers := (headers resp)
     (''Access-Control-Allow-Origin'' \<mapsto> ''*'',
      ''Access-Control-Allow-Methods'' \<mapsto> ''GET, POST, OPTIONS'',
      ''Access-Control-Allow-Headers'' \<mapsto> ''Content-Type'')\<rparr>"

text \<open>
  What leaves a handler when it does not return: an \<open>HTTPException\<close> of the framework,
  which is itself a response, or any other exception.
\<close>

datatype raised = HTTPException response | Unhandled py_exn

text \<open>
  \<open>handler\<close> is the handler the framework resolved for the request. When it raises, the
  exception leaves the middleware before the headers are set.
\<close>

definition middleware_handler :: "(request \<Rightarrow> raised + response) \<Rightarrow> request \<Rightarrow> raised + response" where
  "middleware_handler handler req =
     (if req_method req = ''OPTIONS'' then Inr (cors empty_response)
      else case handler req of
             Inl e \<Rightarrow> Inl e
           | Inr resp \<Rightarrow> Inr (cors resp))"

text \<open>
  The route table: the four handlers of the file under the method and path they are
  registered for. Each of them returns a response on every request.
\<close>

definition handlers :: "env \<Rightarrow> remote \<Rightarrow> ((string \<times> string) \<times> (request \<Rightarrow> raised + response)) list" where
  "handlers cfg rem =
     [((''GET'', ''/''), \<lambda>req. Inr (serve_html cfg)),
      ((''GET'', ''/ping''), \<lambda>req. Inr ping),
      ((''POST'', ''/api/test''), \<lambda>req. Inr test),
      ((''POST'', ''/api/generate''), \<lambda>req. Inr (fst (generate cfg rem req)))]"

text \<open>
  The framework's part, which is not code of this repository. For a request that matches
  no route the router resolves a handler that raises \<open>HTTPNotFound\<close>. The server sends
  what the chain of middleware and handler returned; when an \<open>HTTPException\<close> escaped
  instead it sends that exception, and for any other exception a plain 500.
\<close>

definition HTTPNotFound :: response where
  "HTTPNotFound = text_response ''404: Not Found'' ''text/plain'' 404"

definition not_found_handler :: "request \<Rightarrow> raised + response" where
  "not_found_handler req = Inl (HTTPException HTTPNotFound)"

definition server_reply :: "raised + response \<Rightarrow> response" where
  "server_reply outcome =
     (case outcome of
        Inr resp \<Rightarrow> resp
      | Inl (HTTPException resp) \<Rightarrow> resp
      | Inl (Unhandled e) \<Rightarrow>
          text_response (''500 Internal Server Error'' @ nl @ nl @ ''Server got itself in trouble'')
            ''text/plain'' 500)"


section \<open>Vocabulary of the statements\<close>

definition hashable :: "json \<Rightarrow> bool" where
  "hashable v = (case v of JList xs \<Rightarrow> False | JObj kvs \<Rightarrow> False | _ \<Rightarrow> True)"

definition field_or :: "(string \<times> json) list \<Rightarrow> string \<Rightarrow> json \<Rightarrow> json" where
  "field_or d k dflt = (case map_of d k of Some v \<Rightarrow> v | None \<Rightarrow> dflt)"

definition accepted :: "request \<Rightarrow> bool" where
  "accepted req =
     (case json_body req of
        Inl e \<Rightarrow> False
      | Inr data \<Rightarrow>
          (case data of
             JObj d \<Rightarrow> truthy (field_or d ''idea'' JNull) \<and>
                       hashable (field_or d ''artStyle'' (JStr ''pixel''))
           | _ \<Rightarrow> False))"

definition nested_field :: "py_exn + json \<Rightarrow> string \<Rightarrow> string \<Rightarrow> json option" where
  "nested_field decoded outer inner =
     (case decoded of
        Inl e \<Rightarrow> None
      | Inr v \<Rightarrow>
          (case v of
             JObj b \<Rightarrow>
               (case map_of b outer of
                  None \<Rightarrow> None
                | Some w \<Rightarrow> (case w of JObj g \<Rightarrow> map_of g inner | _ \<Rightarrow> None))
           | _ \<Rightarrow> None))"

definition generation_id :: "reply \<Rightarrow> json option" where
  "generation_id r = nested_field (r_json r) ''sdGenerationJob'' ''generationId''"

definition job_field :: "reply \<Rightarrow> string \<Rightarrow> json option" where
  "job_field r k = nested_field (r_json r) ''generations_by_pk'' k"

definition keeps_polling :: "py_exn + reply \<Rightarrow> bool" where
  "keeps_polling outcome =
     (case outcome of
        Inl e \<Rightarrow> False
      | Inr r \<Rightarrow>
          r_status r \<noteq> 200 \<or>
          (case job_field r ''status'' of None \<Rightarrow> False | Some st \<Rightarrow> st \<noteq> JStr ''COMPLETE''))"

definition complete_with :: "py_exn + reply \<Rightarrow> json \<Rightarrow> bool" where
  "complete_with outcome imgs =
     (case outcome of
        Inl e \<Rightarrow> False
      | Inr r \<Rightarrow>
          r_status r = 200 \<and> job_field r ''status'' = Some (JStr ''COMPLETE'') \<and>
          job_field r ''generated_images'' = Some imgs)"

section \<open>Sample inputs\<close>

definition sample_env :: env where
  "sample_env = \<lparr>LEONARDO_API_KEY = Some ''secret'', py_str = (\<lambda>v. []), index_html = Inr ''<html></html>''\<rparr>"

definition sample_request :: request where
  "sample_request =
     \<lparr>req_method = ''POST'', req_path = ''/api/generate'',
      json_body = Inr (JObj [(''idea'', JStr ''cat''), (''artStyle'', JStr ''watercolor'')])\<rparr>"

definition accepted_reply :: reply where
  "accepted_reply =
     \<lparr>r_status = 200, r_text = ''{..}'',
      r_json = Inr (JObj [(''sdGenerationJob'', JObj [(''generationId'', JStr ''gen-1'')])])\<rparr>"

definition refused_reply :: reply where
  "refused_reply =
     \<lparr>r_status = 401, r_text = ''Unauthorized'', r_json = Inl (ExternalError ''Expecting value'')\<rparr>"

definition pending_reply :: reply where
  "pending_reply =
     \<lparr>r_status = 200, r_text = ''{..}'',
      r_json = Inr (JObj [(''generations_by_pk'',
                 JObj [(''status'', JStr ''PENDING''), (''generated_images'', JList [])])])\<rparr>"

definition complete_reply :: reply where
  "complete_reply =
     \<lparr>r_status = 200, r_text = ''{..}'',
      r_json = Inr (JObj [(''generations_by_pk'',
                 JObj [(''status'', JStr ''COMPLETE''),
                       (''generated_images'', JList [JObj [(''url'', JStr ''https://cdn/img.png'')]])])])\<rparr>"

definition empty_complete_reply :: reply where
  "empty_complete_reply =
     \<lparr>r_status = 200, r_text = ''{..}'',
      r_json = Inr (JObj [(''generations_by_pk'',
                 JObj [(''status'', JStr ''COMPLETE''), (''generated_images'', JList [])])])\<rparr>"

definition unavailable_reply :: reply where
  "unavailable_reply =
     \<lparr>r_status = 503, r_text = ''Service Unavailable'', r_json = Inl (ExternalError ''Expecting value'')\<rparr>"

lemmas sample_defs =
  sample_env_def sample_request_def accepted_reply_def refused_reply_def pending_reply_def
  complete_reply_def empty_complete_reply_def unavailable_reply_def

section \<open>Auxiliary facts\<close>

lemma getitem_Inr: "getitem v k = Inr x \<longleftrightarrow> (\<exists>kvs. v = JObj kvs \<and> map_of kvs k = Some x)"
  by (cases v) (auto split: option.splits)

lemma getitem_nested:
  "bind_exn decoded (\<lambda>v. bind_exn (getitem v outer) (\<lambda>w. getitem w inner)) = Inr x
     \<longleftrightarrow> nested_field decoded outer inner = Some x"
  by (auto simp: bind_exn_def nested_field_def getitem_Inr split: sum.splits json.splits option.splits)

lemma getitem_nested_None:
  "nested_field decoded outer inner = None \<Longrightarrow>
     \<exists>e. bind_exn decoded (\<lambda>v. bind_exn (getitem v outer) (\<lambda>w. getitem w inner)) = Inl e"
  using getitem_nested [of decoded outer inner]
  by (cases "bind_exn decoded (\<lambda>v. bind_exn (getitem v outer) (\<lambda>w. getitem w inner))") auto

lemma poll_attempt_keeps: "keeps_polling x \<Longrightarrow> poll_attempt x = Inr None"
  by (auto simp: keeps_polling_def poll_attempt_def job_field_def nested_field_def bind_exn_def
      split: sum.splits json.splits option.splits)

lemma poll_attempt_None_iff: "poll_attempt x = Inr None \<longleftrightarrow> keeps_polling x"
  by (auto simp: keeps_polling_def poll_attempt_def job_field_def nested_field_def bind_exn_def getitem_Inr
      split: sum.splits json.splits option.splits if_splits)

lemma poll_attempt_complete:
  assumes "complete_with x (JList (JObj img # others))" and "map_of img ''url'' = Some u"
  shows "poll_attempt x = Inr (Some u)"
  using assms
  by (auto simp: complete_with_def poll_attempt_def job_field_def nested_field_def bind_exn_def
      split: sum.splits json.splits option.splits)

lemma poll_attempt_empty:
  assumes "complete_with x (JList [])"
  shows "poll_attempt x = Inl (IndexError ''list index out of range'')"
  using assms
  by (auto simp: complete_with_def poll_attempt_def job_field_def nested_field_def bind_exn_def
      split: sum.splits json.splits option.splits)

lemma poll_loop_skip:
  "\<forall>j<k. poll_attempt (polls (i + j)) = Inr None \<Longrightarrow> k \<le> n \<Longrightarrow>
     poll_loop polls q n i =
       (fst (poll_loop polls q (n - k) (i + k)), replicate k q @ snd (poll_loop polls q (n - k) (i + k)))"
proof (induction k arbitrary: n i)
  case 0
  then show ?case by simp
next
  case (Suc k)
  from Suc.prems(2) obtain n' where n: "n = Suc n'" and le: "k \<le> n'"
    by (cases n) auto
  from Suc.prems(1) have first: "poll_attempt (polls i) = Inr None"
    by (metis add.right_neutral zero_less_Suc)
  have rest: "\<forall>j<k. poll_attempt (polls (Suc i + j)) = Inr None"
    using Suc.prems(1) by (metis Suc_less_eq add_Suc_shift)
  from Suc.IH [OF rest le] first show ?case
    by (simp add: n split: prod.splits)
qed

lemma poll_loop_timeout:
  assumes "\<forall>j<n. poll_attempt (polls j) = Inr None"
  shows "poll_loop polls q n 0 = (Inr None, replicate n q)"
  using poll_loop_skip [of n polls 0 n q] assms by simp

lemma poll_loop_stops:
  assumes "\<forall>j<m. poll_attempt (polls j) = Inr None" and "m < n"
    and "poll_attempt (polls m) = Inl e \<or> poll_attempt (polls m) = Inr (Some u)"
  shows "poll_loop polls q n 0 = (poll_attempt (polls m), replicate (Suc m) q)"
proof -
  from \<open>m < n\<close> obtain d where d: "n - m = Suc d"
    by (cases "n - m") auto
  have "poll_loop polls q (Suc d) m = (poll_attempt (polls m), [q])"
    using assms(3) by auto
  with poll_loop_skip [of m polls 0 n q] assms(1,2) d show ?thesis
    by (simp add: replicate_append_same)
qed

lemma style_lookup_hashable:
  "hashable a \<Longrightarrow> \<exists>sp. style_lookup a = Inr sp"
  by (cases a) (simp_all add: style_lookup_def hashable_def ART_STYLE_PROMPTS_def)

lemma generate_accepted:
  assumes "json_body req = Inr (JObj d)" and "truthy (field_or d ''idea'' JNull)"
    and "style_lookup (field_or d ''artStyle'' (JStr ''pixel'')) = Inr sp"
  shows "generate cfg rem req =
           api_try cfg rem
             (base_prompt cfg (field_or d ''generatedName'' (JStr [])) (field_or d ''idea'' JNull) sp)"
  using assms by (simp add: generate_def generate_body_def bind_exn_def field_or_def)

lemma accepted_reaches_api:
  assumes "accepted req"
  shows "\<exists>p. generate cfg rem req = api_try cfg rem p"
proof -
  from assms obtain d where d: "json_body req = Inr (JObj d)"
    and idea: "truthy (field_or d ''idea'' JNull)"
    and style: "hashable (field_or d ''artStyle'' (JStr ''pixel''))"
    by (auto simp: accepted_def split: sum.splits json.splits)
  from style_lookup_hashable [OF style] obtain sp
    where "style_lookup (field_or d ''artStyle'' (JStr ''pixel'')) = Inr sp" ..
  from generate_accepted [OF d idea this] show ?thesis by blast
qed

lemma api_try_not_200:
  assumes "post_reply rem = Inr sub" and "r_status sub \<noteq> 200"
  shows "api_try cfg rem p =
           (json_response (JObj [(''error'', JStr (''Failed to generate image: '' @ r_text sub))])
              (r_status sub),
            [submission cfg p])"
  using assms by (simp add: api_try_def api_call_def)

lemma api_try_no_id:
  assumes "post_reply rem = Inr sub" and "r_status sub = 200" and "generation_id sub = None"
  shows "\<exists>e. api_try cfg rem p =
           (json_response (JObj [(''error'', JStr (''API request failed: '' @ str_exn e))]) 500,
            [submission cfg p])"
proof -
  from getitem_nested_None [OF assms(3) [unfolded generation_id_def]] obtain e
    where "bind_exn (r_json sub) (\<lambda>v. bind_exn (getitem v ''sdGenerationJob'')
             (\<lambda>w. getitem w ''generationId'')) = Inl e" ..
  with assms(1,2) have "api_try cfg rem p =
      (json_response (JObj [(''error'', JStr (''API request failed: '' @ str_exn e))]) 500,
       [submission cfg p])"
    by (simp add: api_try_def api_call_def)
  then show ?thesis ..
qed

lemma api_try_polls:
  assumes "post_reply rem = Inr sub" and "r_status sub = 200" and "generation_id sub = Some gid"
    and "poll_loop (poll_reply rem) (status_query cfg gid) 30 0 = (res, tr)"
  shows "api_try cfg rem p =
           ((case res of
               Inl e \<Rightarrow> json_response (JObj [(''error'', JStr (''API request failed: '' @ str_exn e))]) 500
             | Inr None \<Rightarrow> json_response (JObj [(''error'', JStr ''Timeout waiting for image'')]) 500
             | Inr (Some image_url) \<Rightarrow>
                 json_response (JObj [(''success'', JBool True), (''imageUrl'', image_url)]) 200),
            submission cfg p # tr)"
proof -
  from assms(3) have "bind_exn (r_json sub) (\<lambda>v. bind_exn (getitem v ''sdGenerationJob'')
             (\<lambda>w. getitem w ''generationId'')) = Inr gid"
    by (simp add: getitem_nested generation_id_def)
  with assms(1,2,4) show ?thesis
    by (simp add: api_try_def api_call_def split: sum.splits option.splits)
qed

lemma generate_poll_outcome:
  assumes "accepted req" and "post_reply rem = Inr sub" and "r_status sub = 200"
    and "generation_id sub = Some gid" and "m < 30"
    and "\<forall>i<m. keeps_polling (poll_reply rem i)"
    and "poll_attempt (poll_reply rem m) = Inl e \<or> poll_attempt (poll_reply rem m) = Inr (Some u)"
  shows "\<exists>p. generate cfg rem req =
           ((case poll_attempt (poll_reply rem m) of
               Inl e \<Rightarrow> json_response (JObj [(''error'', JStr (''API request failed: '' @ str_exn e))]) 500
             | Inr None \<Rightarrow> json_response (JObj [(''error'', JStr ''Timeout waiting for image'')]) 500
             | Inr (Some image_url) \<Rightarrow>
                 json_response (JObj [(''success'', JBool True), (''imageUrl'', image_url)]) 200),
            submission cfg p # replicate (Suc m) (status_query cfg gid))"
proof -
  from accepted_reaches_api [OF assms(1)] obtain p
    where p: "generate cfg rem req = api_try cfg rem p" ..
  from assms(6) have "\<forall>j<m. poll_attempt (poll_reply rem j) = Inr None"
    by (simp add: poll_attempt_keeps)
  from poll_loop_stops [OF this assms(5,7)]
  have "poll_loop (poll_reply rem) (status_query cfg gid) 30 0 =
          (poll_attempt (poll_reply rem m), replicate (Suc m) (status_query cfg gid))" .
  from api_try_polls [OF assms(2-4) this, of p] p show ?thesis
    by (simp only:) blast
qed

lemma pixel_entry:
  "map_of ART_STYLE_PROMPTS ''pixel'' =
     Some (''16-bit pixel art style, retro gaming aesthetic, clean pixelated edges,'' @ nl @
           ''        reminiscent of classic video games, limited color palette, sharp pixels'')"
  by (simp add: ART_STYLE_PROMPTS_def)

lemma style_keys:
  "fst ` set ART_STYLE_PROMPTS = {''pixel'', ''anime'', ''3d'', ''minimalist'', ''cartoon'', ''realistic''}"
  by (simp add: ART_STYLE_PROMPTS_def)

lemma style_lookup_eq:
  assumes "hashable a"
  shows "style_lookup a =
           Inr (case a of
                  JStr s \<Rightarrow>
                    (case map_of ART_STYLE_PROMPTS s of
                       Some p \<Rightarrow> p
                     | None \<Rightarrow> the (map_of ART_STYLE_PROMPTS ''pixel''))
                | _ \<Rightarrow> the (map_of ART_STYLE_PROMPTS ''pixel''))"
  using assms by (cases a) (simp_all add: style_lookup_def pixel_entry hashable_def split: option.splits)

lemma api_try_starts_with_submission:
  "\<exists>tr. snd (api_try cfg rem p) = submission cfg p # tr"
  by (auto simp: api_try_def api_call_def split: sum.splits option.splits prod.splits)

lemma accepted_sample: "accepted sample_request"
  by (simp add: accepted_def sample_request_def field_or_def hashable_def)

section \<open>Claims\<close>

text \<open>
  C2. A request whose body has no \<open>idea\<close>, or an idea that is empty (or any other false
  object), gets status 400 with the body \<open>{"error": "No idea provided"}\<close>, and nothing is
  sent to the remote service.
\<close>

theorem missing_idea_rejected:
  assumes "json_body req = Inr (JObj d)"
    and "map_of d ''idea'' = None \<or> (\<exists>v. map_of d ''idea'' = Some v \<and> \<not> truthy v)"
  shows "status (fst (generate cfg rem req)) = 400 \<and>
         body (fst (generate cfg rem req)) = JsonBody (JObj [(''error'', JStr ''No idea provided'')]) \<and>
         snd (generate cfg rem req) = []"
  using assms
  by (auto simp: generate_def generate_body_def bind_exn_def json_response_def)

theorem missing_idea_rejected_witness:
  "status (fst (generate sample_env \<lparr>post_reply = Inr accepted_reply, poll_reply = (\<lambda>i. Inr complete_reply)\<rparr>
             \<lparr>req_method = ''POST'', req_path = ''/api/generate'',
              json_body = Inr (JObj [(''idea'', JStr []), (''artStyle'', JStr ''anime'')])\<rparr>)) = 400 \<and>
   snd (generate sample_env \<lparr>post_reply = Inr accepted_reply, poll_reply = (\<lambda>i. Inr complete_reply)\<rparr>
             \<lparr>req_method = ''POST'', req_path = ''/api/generate'',
              json_body = Inr (JObj [(''idea'', JStr []), (''artStyle'', JStr ''anime'')])\<rparr>) = []"
proof -
  have "map_of [(''idea'', JStr []), (''artStyle'', JStr ''anime'')] ''idea'' = None \<or>
        (\<exists>v. map_of [(''idea'', JStr []), (''artStyle'', JStr ''anime'')] ''idea'' = Some v \<and> \<not> truthy v)"
    by simp
  from missing_idea_rejected [OF _ this] show ?thesis by simp
qed

text \<open>
  C1, as amended. When a validated request's submission comes back with a status \<open>s\<close>
  other than 200, the handler returns a response with that same status \<open>s\<close> and the JSON
  body \<open>{"error": "Failed to generate image: " + text of the remote reply}\<close>, and does not
  poll. This is the response object the handler returns: for \<open>s\<close> 204 or 304 the
  framework sends it without the body.
\<close>

theorem failed_submission_relayed:
  assumes "accepted req" and "post_reply rem = Inr sub" and "r_status sub \<noteq> 200"
  shows "status (fst (generate cfg rem req)) = r_status sub \<and>
         body (fst (generate cfg rem req)) =
           JsonBody (JObj [(''error'', JStr (''Failed to generate image: '' @ r_text sub))]) \<and>
         (\<exists>p. snd (generate cfg rem req) = [submission cfg p])"
proof -
  from accepted_reaches_api [OF assms(1)] obtain p
    where "generate cfg rem req = api_try cfg rem p" ..
  then have out: "generate cfg rem req =
      (json_response (JObj [(''error'', JStr (''Failed to generate image: '' @ r_text sub))])
         (r_status sub),
       [submission cfg p])"
    by (simp only: api_try_not_200 [OF assms(2,3)])
  show ?thesis
    unfolding out by (auto simp: json_response_def)
qed

theorem failed_submission_relayed_witness:
  "status (fst (generate sample_env
       \<lparr>post_reply = Inr refused_reply, poll_reply = (\<lambda>i. Inr complete_reply)\<rparr> sample_request)) = 401 \<and>
   body (fst (generate sample_env
       \<lparr>post_reply = Inr refused_reply, poll_reply = (\<lambda>i. Inr complete_reply)\<rparr> sample_request)) =
     JsonBody (JObj [(''error'', JStr ''Failed to generate image: Unauthorized'')])"
  using failed_submission_relayed [OF accepted_sample, of _ refused_reply sample_env]
  by (simp add: refused_reply_def)

text \<open>
  C1 as stated fails: a submission refused with 401 is answered with 401, not with 500.
\<close>

theorem remote_401_counterexample:
  "r_status refused_reply \<noteq> 200 \<and>
   status (fst (generate sample_env
       \<lparr>post_reply = Inr refused_reply, poll_reply = (\<lambda>i. Inr complete_reply)\<rparr> sample_request)) \<noteq> 500"
  by (simp add: generate_def generate_body_def bind_exn_def api_try_def api_call_def
      style_lookup_def ART_STYLE_PROMPTS_def json_response_def sample_defs)

text \<open>
  C7. When the submission is answered with status 200 but its body has no
  \<open>sdGenerationJob.generationId\<close>, the service answers 500 with a JSON error body, and
  the submission is the only request it sent: no status query follows.
\<close>

theorem missing_generation_id_fails:
  assumes "accepted req" and "post_reply rem = Inr sub" and "r_status sub = 200"
    and "generation_id sub = None"
  shows "status (fst (generate cfg rem req)) = 500 \<and>
         (\<exists>msg. body (fst (generate cfg rem req)) =
                  JsonBody (JObj [(''error'', JStr (''API request failed: '' @ msg))])) \<and>
         (\<exists>p. snd (generate cfg rem req) = [submission cfg p])"
proof -
  from accepted_reaches_api [OF assms(1)] obtain p
    where p: "generate cfg rem req = api_try cfg rem p" ..
  from api_try_no_id [OF assms(2-4)] obtain e
    where "api_try cfg rem p =
             (json_response (JObj [(''error'', JStr (''API request failed: '' @ str_exn e))]) 500,
              [submission cfg p])" ..
  with p have out: "generate cfg rem req =
             (json_response (JObj [(''error'', JStr (''API request failed: '' @ str_exn e))]) 500,
              [submission cfg p])"
    by simp
  show ?thesis
    unfolding out by (auto simp: json_response_def)
qed

theorem missing_generation_id_fails_witness:
  "status (fst (generate sample_env
       \<lparr>post_reply = Inr \<lparr>r_status = 200, r_text = ''{..}'',
                            r_json = Inr (JObj [(''sdGenerationJob'', JObj [])])\<rparr>,
        poll_reply = (\<lambda>i. Inr complete_reply)\<rparr> sample_request)) = 500 \<and>
   length (snd (generate sample_env
       \<lparr>post_reply = Inr \<lparr>r_status = 200, r_text = ''{..}'',
                            r_json = Inr (JObj [(''sdGenerationJob'', JObj [])])\<rparr>,
        poll_reply = (\<lambda>i. Inr complete_reply)\<rparr> sample_request)) = 1"
proof -
  have "generation_id \<lparr>r_status = 200, r_text = ''{..}'',
                        r_json = Inr (JObj [(''sdGenerationJob'', JObj [])])\<rparr> = None"
    by (simp add: generation_id_def nested_field_def)
  from missing_generation_id_fails [OF accepted_sample _ _ this,
      where rem = "\<lparr>post_reply = Inr \<lparr>r_status = 200, r_text = ''{..}'',
                            r_json = Inr (JObj [(''sdGenerationJob'', JObj [])])\<rparr>,
                    poll_reply = (\<lambda>i. Inr complete_reply)\<rparr>" and cfg = sample_env]
  show ?thesis by auto
qed

text \<open>
  C5. When the submission succeeded and each of the 30 status queries is answered either
  with a status other than 200 or with a job status other than \<open>COMPLETE\<close>, the service
  sends exactly 30 status queries and answers 500 with the body
  \<open>{"error": "Timeout waiting for image"}\<close>.
\<close>

theorem never_complete_times_out:
  assumes "accepted req" and "post_reply rem = Inr sub" and "r_status sub = 200"
    and "generation_id sub = Some gid"
    and "\<forall>i<30. keeps_polling (poll_reply rem i)"
  shows "status (fst (generate cfg rem req)) = 500 \<and>
         body (fst (generate cfg rem req)) =
           JsonBody (JObj [(''error'', JStr ''Timeout waiting for image'')]) \<and>
         (\<exists>p. snd (generate cfg rem req) =
                submission cfg p # replicate 30 (status_query cfg gid))"
proof -
  from accepted_reaches_api [OF assms(1)] obtain p
    where p: "generate cfg rem req = api_try cfg rem p" ..
  from assms(5) have "\<forall>j<30. poll_attempt (poll_reply rem j) = Inr None"
    by (simp add: poll_attempt_keeps)
  then have "poll_loop (poll_reply rem) (status_query cfg gid) 30 0 =
               (Inr None, replicate 30 (status_query cfg gid))"
    by (rule poll_loop_timeout)
  from api_try_polls [OF assms(2-4) this, of p] p
  have out: "generate cfg rem req =
               (json_response (JObj [(''error'', JStr ''Timeout waiting for image'')]) 500,
                submission cfg p # replicate 30 (status_query cfg gid))"
    by simp
  show ?thesis
    unfolding out by (auto simp: json_response_def)
qed

theorem never_complete_times_out_witness:
  "status (fst (generate sample_env
       \<lparr>post_reply = Inr accepted_reply,
        poll_reply = (\<lambda>i. if even i then Inr pending_reply else Inr unavailable_reply)\<rparr>
       sample_request)) = 500 \<and>
   length (snd (generate sample_env
       \<lparr>post_reply = Inr accepted_reply,
        poll_reply = (\<lambda>i. if even i then Inr pending_reply else Inr unavailable_reply)\<rparr>
       sample_request)) = 31"
proof -
  have id: "generation_id accepted_reply = Some (JStr ''gen-1'')"
    by (simp add: generation_id_def nested_field_def accepted_reply_def)
  have st: "r_status accepted_reply = 200"
    by (simp add: accepted_reply_def)
  have polls: "\<forall>i<30. keeps_polling
      (poll_reply \<lparr>post_reply = Inr accepted_reply,
         poll_reply = (\<lambda>i. if even i then Inr pending_reply else Inr unavailable_reply)\<rparr> i)"
    by (simp add: keeps_polling_def job_field_def nested_field_def pending_reply_def
        unavailable_reply_def)
  from never_complete_times_out [OF accepted_sample _ st id polls, of sample_env]
  show ?thesis by auto
qed

text \<open>
  C4, as amended. Let the submission have succeeded, let each of the first \<open>m\<close> status
  queries (\<open>m < 30\<close>) be answered with a status other than 200 or with a job status
  other than \<open>COMPLETE\<close>, and let query number \<open>m + 1\<close> be answered with status 200, job
  status \<open>COMPLETE\<close> and a list of images whose first element has a \<open>url\<close>. Then the
  service answers 200 with \<open>{"success": true, "imageUrl": url}\<close> after exactly \<open>m + 1\<close>
  status queries.
\<close>

theorem first_complete_returns_image:
  assumes "accepted req" and "post_reply rem = Inr sub" and "r_status sub = 200"
    and "generation_id sub = Some gid" and "m < 30"
    and "\<forall>i<m. keeps_polling (poll_reply rem i)"
    and "complete_with (poll_reply rem m) (JList (JObj img # others))"
    and "map_of img ''url'' = Some url"
  shows "status (fst (generate cfg rem req)) = 200 \<and>
         body (fst (generate cfg rem req)) =
           JsonBody (JObj [(''success'', JBool True), (''imageUrl'', url)]) \<and>
         (\<exists>p. snd (generate cfg rem req) =
                submission cfg p # replicate (Suc m) (status_query cfg gid))"
proof -
  have att: "poll_attempt (poll_reply rem m) = Inr (Some url)"
    using assms(7,8) by (rule poll_attempt_complete)
  then have "poll_attempt (poll_reply rem m) = Inl undefined \<or>
             poll_attempt (poll_reply rem m) = Inr (Some url)" ..
  from generate_poll_outcome [OF assms(1-6) this, of cfg] obtain p
    where "generate cfg rem req =
             (json_response (JObj [(''success'', JBool True), (''imageUrl'', url)]) 200,
              submission cfg p # replicate (Suc m) (status_query cfg gid))"
    by (auto simp: att)
  then show ?thesis
    by (auto simp: json_response_def)
qed

theorem first_complete_returns_image_witness:
  "body (fst (generate sample_env
       \<lparr>post_reply = Inr accepted_reply,
        poll_reply = (\<lambda>i. if i < 4 then Inr pending_reply else Inr complete_reply)\<rparr>
       sample_request)) =
     JsonBody (JObj [(''success'', JBool True), (''imageUrl'', JStr ''https://cdn/img.png'')]) \<and>
   length (snd (generate sample_env
       \<lparr>post_reply = Inr accepted_reply,
        poll_reply = (\<lambda>i. if i < 4 then Inr pending_reply else Inr complete_reply)\<rparr>
       sample_request)) = 6"
proof -
  let ?R = "\<lparr>post_reply = Inr accepted_reply,
            poll_reply = (\<lambda>i. if i < 4 then Inr pending_reply else Inr complete_reply)\<rparr>"
  have id: "generation_id accepted_reply = Some (JStr ''gen-1'')"
    by (simp add: generation_id_def nested_field_def accepted_reply_def)
  have st: "r_status accepted_reply = 200"
    by (simp add: accepted_reply_def)
  have polls: "\<forall>i<4. keeps_polling (poll_reply ?R i)"
    by (simp add: keeps_polling_def job_field_def nested_field_def pending_reply_def)
  have fin: "complete_with (poll_reply ?R 4)
                (JList (JObj [(''url'', JStr ''https://cdn/img.png'')] # []))"
    by (simp add: complete_with_def job_field_def nested_field_def complete_reply_def)
  have url: "map_of [(''url'', JStr ''https://cdn/img.png'')] ''url'' = Some (JStr ''https://cdn/img.png'')"
    by simp
  have "(4::nat) < 30" by simp
  from first_complete_returns_image [OF accepted_sample _ st id this polls fin url, of sample_env]
  show ?thesis by auto
qed

text \<open>
  C4 as stated fails. The first status query is answered \<open>COMPLETE\<close> with an empty list
  of images and the second \<open>COMPLETE\<close> with an image, so the second is the first attempt
  that returns 200, \<open>COMPLETE\<close> and a non-empty list; the service answers 500 after one
  status query.
\<close>

theorem empty_then_complete_counterexample:
  "complete_with (Inr empty_complete_reply) (JList []) \<and>
   complete_with (Inr complete_reply) (JList [JObj [(''url'', JStr ''https://cdn/img.png'')]]) \<and>
   status (fst (generate sample_env
       \<lparr>post_reply = Inr accepted_reply,
        poll_reply = (\<lambda>i. if i = 0 then Inr empty_complete_reply else Inr complete_reply)\<rparr>
       sample_request)) = 500 \<and>
   snd (generate sample_env
       \<lparr>post_reply = Inr accepted_reply,
        poll_reply = (\<lambda>i. if i = 0 then Inr empty_complete_reply else Inr complete_reply)\<rparr>
       sample_request) =
     [submission sample_env
        (base_prompt sample_env (JStr []) (JStr ''cat'')
           (case map_of ART_STYLE_PROMPTS ''pixel'' of Some p \<Rightarrow> p | None \<Rightarrow> [])),
      status_query sample_env (JStr ''gen-1'')]"
proof -
  let ?R = "\<lparr>post_reply = Inr accepted_reply,
            poll_reply = (\<lambda>i. if i = 0 then Inr empty_complete_reply else Inr complete_reply)\<rparr>"
  have c0: "complete_with (Inr empty_complete_reply) (JList [])"
    by (simp add: complete_with_def job_field_def nested_field_def empty_complete_reply_def)
  have c1: "complete_with (Inr complete_reply) (JList [JObj [(''url'', JStr ''https://cdn/img.png'')]])"
    by (simp add: complete_with_def job_field_def nested_field_def complete_reply_def)
  have att: "poll_attempt (poll_reply ?R 0) = Inl (IndexError ''list index out of range'')"
    using c0 by (simp add: poll_attempt_empty)
  have loop: "poll_loop (poll_reply ?R) (status_query sample_env (JStr ''gen-1'')) 30 0 =
                (Inl (IndexError ''list index out of range''), [status_query sample_env (JStr ''gen-1'')])"
    using poll_loop_stops [of 0 "poll_reply ?R" 30 "IndexError ''list index out of range''" undefined
        "status_query sample_env (JStr ''gen-1'')"] att
    by simp
  have id: "generation_id accepted_reply = Some (JStr ''gen-1'')"
    by (simp add: generation_id_def nested_field_def accepted_reply_def)
  have st: "r_status accepted_reply = 200"
    by (simp add: accepted_reply_def)
  have body: "json_body sample_request = Inr (JObj [(''idea'', JStr ''cat''), (''artStyle'', JStr ''watercolor'')])"
    by (simp add: sample_request_def)
  have style: "style_lookup (field_or [(''idea'', JStr ''cat''), (''artStyle'', JStr ''watercolor'')]
                   ''artStyle'' (JStr ''pixel'')) =
               Inr (case map_of ART_STYLE_PROMPTS ''pixel'' of Some p \<Rightarrow> p | None \<Rightarrow> [])"
    by (simp add: style_lookup_def field_or_def ART_STYLE_PROMPTS_def)
  have gen: "generate sample_env ?R sample_request =
               api_try sample_env ?R (base_prompt sample_env (JStr []) (JStr ''cat'')
                  (case map_of ART_STYLE_PROMPTS ''pixel'' of Some p \<Rightarrow> p | None \<Rightarrow> []))"
    using generate_accepted [OF body _ style, of sample_env ?R]
    by (simp add: field_or_def)
  have out: "generate sample_env ?R sample_request =
      (json_response (JObj [(''error'', JStr (''API request failed: '' @ ''list index out of range''))]) 500,
       [submission sample_env (base_prompt sample_env (JStr []) (JStr ''cat'')
           (case map_of ART_STYLE_PROMPTS ''pixel'' of Some p \<Rightarrow> p | None \<Rightarrow> [])),
        status_query sample_env (JStr ''gen-1'')])"
    unfolding gen using api_try_polls [OF _ st id loop] by simp
  show ?thesis
    unfolding out using c0 c1 by (simp add: json_response_def)
qed

text \<open>
  C9. When, after \<open>m\<close> status queries that left the job pending, the next one is answered
  with status 200, job status \<open>COMPLETE\<close> and an empty list of images, the indexing error
  is caught: the service stops polling and answers 500 with a JSON error body.
\<close>

theorem empty_image_list_is_fatal:
  assumes "accepted req" and "post_reply rem = Inr sub" and "r_status sub = 200"
    and "generation_id sub = Some gid" and "m < 30"
    and "\<forall>i<m. keeps_polling (poll_reply rem i)"
    and "complete_with (poll_reply rem m) (JList [])"
  shows "status (fst (generate cfg rem req)) = 500 \<and>
         body (fst (generate cfg rem req)) =
           JsonBody (JObj [(''error'', JStr ''API request failed: list index out of range'')]) \<and>
         (\<exists>p. snd (generate cfg rem req) =
                submission cfg p # replicate (Suc m) (status_query cfg gid))"
proof -
  have att: "poll_attempt (poll_reply rem m) = Inl (IndexError ''list index out of range'')"
    using assms(7) by (rule poll_attempt_empty)
  then have "poll_attempt (poll_reply rem m) = Inl (IndexError ''list index out of range'') \<or>
             poll_attempt (poll_reply rem m) = Inr (Some undefined)" ..
  from generate_poll_outcome [OF assms(1-6) this, of cfg] obtain p
    where "generate cfg rem req =
             (json_response (JObj [(''error'', JStr (''API request failed: '' @ ''list index out of range''))]) 500,
              submission cfg p # replicate (Suc m) (status_query cfg gid))"
    by (auto simp: att)
  then show ?thesis
    by (auto simp: json_response_def)
qed

theorem empty_image_list_is_fatal_witness:
  "status (fst (generate sample_env
       \<lparr>post_reply = Inr accepted_reply,
        poll_reply = (\<lambda>i. if i < 2 then Inr pending_reply else Inr empty_complete_reply)\<rparr>
       sample_request)) = 500 \<and>
   length (snd (generate sample_env
       \<lparr>post_reply = Inr accepted_reply,
        poll_reply = (\<lambda>i. if i < 2 then Inr pending_reply else Inr empty_complete_reply)\<rparr>
       sample_request)) = 4"
proof -
  let ?R = "\<lparr>post_reply = Inr accepted_reply,
            poll_reply = (\<lambda>i. if i < 2 then Inr pending_reply else Inr empty_complete_reply)\<rparr>"
  have id: "generation_id accepted_reply = Some (JStr ''gen-1'')"
    by (simp add: generation_id_def nested_field_def accepted_reply_def)
  have st: "r_status accepted_reply = 200"
    by (simp add: accepted_reply_def)
  have polls: "\<forall>i<2. keeps_polling (poll_reply ?R i)"
    by (simp add: keeps_polling_def job_field_def nested_field_def pending_reply_def)
  have fin: "complete_with (poll_reply ?R 2) (JList [])"
    by (simp add: complete_with_def job_field_def nested_field_def empty_complete_reply_def)
  have "(2::nat) < 30" by simp
  from empty_image_list_is_fatal [OF accepted_sample _ st id this polls fin, of sample_env]
  show ?thesis by auto
qed

text \<open>
  C6. A status query answered with a status other than 200 neither fails the request nor
  ends the loop: with \<open>n + 1\<close> attempts left, the loop goes on exactly as the loop with
  \<open>n\<close> attempts left does from the next query, the query just sent being recorded. The
  attempt has used up one of the 30.
\<close>

theorem non_200_attempt_is_no_op:
  assumes "polls i = Inr r" and "r_status r \<noteq> 200"
  shows "poll_loop polls q (Suc n) i =
           (fst (poll_loop polls q n (Suc i)), q # snd (poll_loop polls q n (Suc i)))"
proof -
  have "poll_attempt (polls i) = Inr None"
    using assms by (simp add: poll_attempt_def bind_exn_def)
  then show ?thesis
    by (simp add: case_prod_unfold)
qed

theorem non_200_attempt_is_no_op_witness:
  "poll_loop (\<lambda>i. if i = 0 then Inr unavailable_reply else Inr complete_reply)
     (status_query sample_env (JStr ''gen-1'')) (Suc (Suc 0)) 0 =
   (Inr (Some (JStr ''https://cdn/img.png'')),
    [status_query sample_env (JStr ''gen-1''), status_query sample_env (JStr ''gen-1'')])"
proof -
  let ?P = "\<lambda>i::nat. if i = 0 then Inr unavailable_reply else (Inr complete_reply :: py_exn + reply)"
  let ?q = "status_query sample_env (JStr ''gen-1'')"
  have st: "r_status unavailable_reply \<noteq> 200"
    by (simp add: unavailable_reply_def)
  have att: "poll_attempt (Inr complete_reply) = Inr (Some (JStr ''https://cdn/img.png''))"
    by (simp add: poll_attempt_def bind_exn_def complete_reply_def)
  have rest: "poll_loop ?P ?q (Suc 0) (Suc 0) =
              (Inr (Some (JStr ''https://cdn/img.png'')), [?q])"
    by (simp add: att)
  have step: "poll_loop ?P ?q (Suc (Suc 0)) 0 =
                (fst (poll_loop ?P ?q (Suc 0) (Suc 0)), ?q # snd (poll_loop ?P ?q (Suc 0) (Suc 0)))"
    by (rule non_200_attempt_is_no_op [where r = unavailable_reply]) (simp_all add: st)
  show ?thesis
    by (simp only: step rest fst_conv snd_conv)
qed

text \<open>
  C8, as amended. Whenever the handler the request is routed to returns a response, and
  so for each of the four handlers of the route table, the response the server sends
  carries \<open>Access-Control-Allow-Origin: *\<close>,
  \<open>Access-Control-Allow-Methods: GET, POST, OPTIONS\<close> and
  \<open>Access-Control-Allow-Headers: Content-Type\<close>; and an \<open>OPTIONS\<close> request, on any path
  and whatever the handler would do, is answered with status 200, an empty body and these
  three headers.
\<close>

theorem cors_headers_on_handler_responses:
  "((\<exists>resp. handler req = Inr resp) \<or> req_method req = ''OPTIONS'' \<longrightarrow>
       headers (server_reply (middleware_handler handler req)) ''Access-Control-Allow-Origin'' =
         Some ''*'' \<and>
       headers (server_reply (middleware_handler handler req)) ''Access-Control-Allow-Methods'' =
         Some ''GET, POST, OPTIONS'' \<and>
       headers (server_reply (middleware_handler handler req)) ''Access-Control-Allow-Headers'' =
         Some ''Content-Type'') \<and>
   (\<forall>h \<in> snd ` set (handlers cfg rem).
       headers (server_reply (middleware_handler h req)) ''Access-Control-Allow-Origin'' =
         Some ''*'' \<and>
       headers (server_reply (middleware_handler h req)) ''Access-Control-Allow-Methods'' =
         Some ''GET, POST, OPTIONS'' \<and>
       headers (server_reply (middleware_handler h req)) ''Access-Control-Allow-Headers'' =
         Some ''Content-Type'') \<and>
   (req_method req = ''OPTIONS'' \<longrightarrow>
       status (server_reply (middleware_handler handler req)) = 200 \<and>
       body (server_reply (middleware_handler handler req)) = NoBody)"
proof (intro conjI impI ballI)
  assume "(\<exists>resp. handler req = Inr resp) \<or> req_method req = ''OPTIONS''"
  then have ret: "\<exists>resp. middleware_handler handler req = Inr (cors resp)"
    by (auto simp: middleware_handler_def)
  from ret show "headers (server_reply (middleware_handler handler req))
                   ''Access-Control-Allow-Origin'' = Some ''*''"
    by (auto simp: server_reply_def cors_def)
  from ret show "headers (server_reply (middleware_handler handler req))
                   ''Access-Control-Allow-Methods'' = Some ''GET, POST, OPTIONS''"
    by (auto simp: server_reply_def cors_def)
  from ret show "headers (server_reply (middleware_handler handler req))
                   ''Access-Control-Allow-Headers'' = Some ''Content-Type''"
    by (auto simp: server_reply_def cors_def)
next
  fix h assume "h \<in> snd ` set (handlers cfg rem)"
  then have "\<exists>resp. h req = Inr resp"
    by (auto simp: handlers_def)
  then have ret: "\<exists>resp. middleware_handler h req = Inr (cors resp)"
    by (auto simp: middleware_handler_def)
  from ret show "headers (server_reply (middleware_handler h req))
                   ''Access-Control-Allow-Origin'' = Some ''*''"
    by (auto simp: server_reply_def cors_def)
  from ret show "headers (server_reply (middleware_handler h req))
                   ''Access-Control-Allow-Methods'' = Some ''GET, POST, OPTIONS''"
    by (auto simp: server_reply_def cors_def)
  from ret show "headers (server_reply (middleware_handler h req))
                   ''Access-Control-Allow-Headers'' = Some ''Content-Type''"
    by (auto simp: server_reply_def cors_def)
next
  assume "req_method req = ''OPTIONS''"
  then have opt: "middleware_handler handler req = Inr (cors empty_response)"
    by (simp add: middleware_handler_def)
  show "status (server_reply (middleware_handler handler req)) = 200"
    unfolding opt by (simp add: server_reply_def cors_def empty_response_def)
  show "body (server_reply (middleware_handler handler req)) = NoBody"
    unfolding opt by (simp add: server_reply_def cors_def empty_response_def)
qed

theorem cors_headers_on_handler_responses_witness:
  "status (server_reply (middleware_handler not_found_handler
      \<lparr>req_method = ''OPTIONS'', req_path = ''/nowhere'', json_body = Inr JNull\<rparr>)) = 200 \<and>
   body (server_reply (middleware_handler not_found_handler
      \<lparr>req_method = ''OPTIONS'', req_path = ''/nowhere'', json_body = Inr JNull\<rparr>)) = NoBody \<and>
   headers (server_reply (middleware_handler not_found_handler
      \<lparr>req_method = ''OPTIONS'', req_path = ''/nowhere'', json_body = Inr JNull\<rparr>))
     ''Access-Control-Allow-Origin'' = Some ''*'' \<and>
   headers (server_reply (middleware_handler (\<lambda>r. Inr ping)
      \<lparr>req_method = ''GET'', req_path = ''/ping'', json_body = Inr JNull\<rparr>))
     ''Access-Control-Allow-Methods'' = Some ''GET, POST, OPTIONS''"
proof -
  let ?o = "\<lparr>req_method = ''OPTIONS'', req_path = ''/nowhere'', json_body = Inr JNull\<rparr>"
  let ?p = "\<lparr>req_method = ''GET'', req_path = ''/ping'', json_body = Inr JNull\<rparr>"
  let ?g = "\<lambda>r::request. (Inr ping :: raised + response)"
  have m: "req_method ?o = ''OPTIONS''" by simp
  have r: "\<exists>resp. ?g ?p = Inr resp" by simp
  from cors_headers_on_handler_responses [of not_found_handler ?o] m
  have first: "status (server_reply (middleware_handler not_found_handler ?o)) = 200 \<and>
      body (server_reply (middleware_handler not_found_handler ?o)) = NoBody \<and>
      headers (server_reply (middleware_handler not_found_handler ?o))
        ''Access-Control-Allow-Origin'' = Some ''*''"
    by blast
  from cors_headers_on_handler_responses [of ?g ?p] r
  have second: "headers (server_reply (middleware_handler ?g ?p))
        ''Access-Control-Allow-Methods'' = Some ''GET, POST, OPTIONS''"
    by blast
  from first second show ?thesis by simp
qed

text \<open>
  C8 as stated fails. A \<open>GET\<close> request to \<open>/nowhere\<close> matches none of the four routes,
  so the handler that raises \<open>HTTPNotFound\<close> is resolved; the exception passes through
  the middleware, and the 404 the server sends has none of the three headers.
\<close>

theorem unmatched_route_counterexample:
  "status (server_reply (middleware_handler not_found_handler
      \<lparr>req_method = ''GET'', req_path = ''/nowhere'', json_body = Inr JNull\<rparr>)) = 404 \<and>
   headers (server_reply (middleware_handler not_found_handler
      \<lparr>req_method = ''GET'', req_path = ''/nowhere'', json_body = Inr JNull\<rparr>))
     ''Access-Control-Allow-Origin'' = None \<and>
   headers (server_reply (middleware_handler not_found_handler
      \<lparr>req_method = ''GET'', req_path = ''/nowhere'', json_body = Inr JNull\<rparr>))
     ''Access-Control-Allow-Methods'' = None \<and>
   headers (server_reply (middleware_handler not_found_handler
      \<lparr>req_method = ''GET'', req_path = ''/nowhere'', json_body = Inr JNull\<rparr>))
     ''Access-Control-Allow-Headers'' = None"
  by (simp add: middleware_handler_def not_found_handler_def server_reply_def HTTPNotFound_def
      text_response_def)

text \<open>
  C3. For a request that passes validation, the prompt submitted to the remote service is
  the fixed template around two parts taken from the request alone, whatever the remote
  service does: the subject, which is \<open>generatedName\<close> when that field is present and
  not empty and \<open>idea\<close> otherwise, and the style descriptor, which is the table's entry
  for \<open>artStyle\<close> when \<open>artStyle\<close> is one of the six keys and the \<open>pixel\<close> entry for
  every other value (and when the field is absent).
\<close>

theorem prompt_from_request:
  assumes "json_body req = Inr (JObj d)"
    and "map_of d ''idea'' = Some idea" and "truthy idea"
    and "art_style = (case map_of d ''artStyle'' of Some a \<Rightarrow> a | None \<Rightarrow> JStr ''pixel'')"
    and "hashable art_style"
    and "subject = (case map_of d ''generatedName'' of
                      Some g \<Rightarrow> if truthy g then g else idea
                    | None \<Rightarrow> idea)"
    and "descriptor =
           (if art_style \<in> JStr ` {''pixel'', ''anime'', ''3d'', ''minimalist'', ''cartoon'', ''realistic''}
            then (case art_style of JStr s \<Rightarrow> the (map_of ART_STYLE_PROMPTS s))
            else ''16-bit pixel art style, retro gaming aesthetic, clean pixelated edges,'' @ nl @
                 ''        reminiscent of classic video games, limited color palette, sharp pixels'')"
  shows "\<exists>tr. snd (generate cfg rem req) =
           POST (LEONARDO_BASE_URL @ ''/generations'') (request_headers cfg)
             (payload
                (''detailed cryptocurrency mascot logo of a '' @ fmt cfg subject @ '','' @ nl @
                 ''            '' @ descriptor @ '','' @ nl @
                 ''            centered composition, clean vectorized style,'' @ nl @
                 ''            suitable for crypto token, professional logo design'')) # tr"
proof -
  let ?pixel = "''16-bit pixel art style, retro gaming aesthetic, clean pixelated edges,'' @ nl @
                ''        reminiscent of classic video games, limited color palette, sharp pixels''"
  let ?keys = "{''pixel'', ''anime'', ''3d'', ''minimalist'', ''cartoon'', ''realistic''}"
  have pix: "the (map_of ART_STYLE_PROMPTS ''pixel'') = ?pixel"
    by (simp only: pixel_entry option.sel)
  have "(case art_style of
           JStr s \<Rightarrow>
             (case map_of ART_STYLE_PROMPTS s of
                Some p \<Rightarrow> p
              | None \<Rightarrow> the (map_of ART_STYLE_PROMPTS ''pixel''))
         | _ \<Rightarrow> the (map_of ART_STYLE_PROMPTS ''pixel'')) = descriptor"
  proof (cases art_style)
    case (JStr s)
    show ?thesis
    proof (cases "s \<in> ?keys")
      case True
      then have "s \<in> fst ` set ART_STYLE_PROMPTS"
        unfolding style_keys .
      then obtain p where p: "map_of ART_STYLE_PROMPTS s = Some p"
        by (metis map_of_eq_None_iff not_Some_eq)
      from True have "art_style \<in> JStr ` ?keys"
        unfolding JStr by (rule imageI)
      then have "descriptor = the (map_of ART_STYLE_PROMPTS s)"
        unfolding assms(7) using JStr by simp
      then show ?thesis
        using JStr p by simp
    next
      case False
      then have "s \<notin> fst ` set ART_STYLE_PROMPTS"
        unfolding style_keys .
      then have none: "map_of ART_STYLE_PROMPTS s = None"
        by (simp add: map_of_eq_None_iff)
      from False have "art_style \<notin> JStr ` ?keys"
        unfolding JStr by blast
      then have "descriptor = ?pixel"
        unfolding assms(7) by simp
      then show ?thesis
        using JStr none pix by simp
    qed
  next
    case JNull
    then have "art_style \<notin> JStr ` ?keys" by blast
    then have "descriptor = ?pixel" unfolding assms(7) by simp
    then show ?thesis using JNull pix by simp
  next
    case (JBool b)
    then have "art_style \<notin> JStr ` ?keys" by blast
    then have "descriptor = ?pixel" unfolding assms(7) by simp
    then show ?thesis using JBool pix by simp
  next
    case (JInt i)
    then have "art_style \<notin> JStr ` ?keys" by blast
    then have "descriptor = ?pixel" unfolding assms(7) by simp
    then show ?thesis using JInt pix by simp
  next
    case (JFloat x)
    then have "art_style \<notin> JStr ` ?keys" by blast
    then have "descriptor = ?pixel" unfolding assms(7) by simp
    then show ?thesis using JFloat pix by simp
  next
    case (JList xs)
    with assms(5) show ?thesis by (simp add: hashable_def)
  next
    case (JObj kvs)
    with assms(5) show ?thesis by (simp add: hashable_def)
  qed
  with style_lookup_eq [OF assms(5)]
  have "style_lookup art_style = Inr descriptor"
    by simp
  then have style: "style_lookup (field_or d ''artStyle'' (JStr ''pixel'')) = Inr descriptor"
    unfolding assms(4) field_or_def by (simp split: option.splits)
  have idea: "truthy (field_or d ''idea'' JNull)"
    using assms(2,3) by (simp add: field_or_def)
  have subj: "py_or (field_or d ''generatedName'' (JStr [])) (field_or d ''idea'' JNull) = subject"
    using assms(2,6) by (simp add: py_or_def field_or_def split: option.splits)
  have gen: "generate cfg rem req =
               api_try cfg rem
                 (base_prompt cfg (field_or d ''generatedName'' (JStr [])) (field_or d ''idea'' JNull)
                    descriptor)"
    using assms(1) idea style by (rule generate_accepted)
  from api_try_starts_with_submission obtain tr
    where "snd (api_try cfg rem
                 (base_prompt cfg (field_or d ''generatedName'' (JStr [])) (field_or d ''idea'' JNull)
                    descriptor)) =
           submission cfg (base_prompt cfg (field_or d ''generatedName'' (JStr []))
                    (field_or d ''idea'' JNull) descriptor) # tr" ..
  then have "snd (generate cfg rem req) =
           POST (LEONARDO_BASE_URL @ ''/generations'') (request_headers cfg)
             (payload
                (''detailed cryptocurrency mascot logo of a '' @ fmt cfg subject @ '','' @ nl @
                 ''            '' @ descriptor @ '','' @ nl @
                 ''            centered composition, clean vectorized style,'' @ nl @
                 ''            suitable for crypto token, professional logo design'')) # tr"
    unfolding gen by (simp add: base_prompt_def subj submission_def)
  then show ?thesis ..
qed

theorem prompt_from_request_witness:
  "hd (snd (generate sample_env
       \<lparr>post_reply = Inr refused_reply, poll_reply = (\<lambda>i. Inr complete_reply)\<rparr> sample_request)) =
     POST (LEONARDO_BASE_URL @ ''/generations'') (request_headers sample_env)
       (payload
          (''detailed cryptocurrency mascot logo of a cat,'' @ nl @
           ''            16-bit pixel art style, retro gaming aesthetic, clean pixelated edges,'' @ nl @
           ''        reminiscent of classic video games, limited color palette, sharp pixels,'' @ nl @
           ''            centered composition, clean vectorized style,'' @ nl @
           ''            suitable for crypto token, professional logo design''))"
proof -
  let ?R = "\<lparr>post_reply = Inr refused_reply, poll_reply = (\<lambda>i. Inr complete_reply)\<rparr>"
  let ?d = "[(''idea'', JStr ''cat''), (''artStyle'', JStr ''watercolor'')]"
  let ?pixel = "''16-bit pixel art style, retro gaming aesthetic, clean pixelated edges,'' @ nl @
                ''        reminiscent of classic video games, limited color palette, sharp pixels''"
  have h1: "json_body sample_request = Inr (JObj ?d)"
    by (simp add: sample_request_def)
  have h2: "map_of ?d ''idea'' = Some (JStr ''cat'')" by simp
  have h3: "truthy (JStr ''cat'')" by simp
  have h4: "JStr ''watercolor'' = (case map_of ?d ''artStyle'' of Some a \<Rightarrow> a | None \<Rightarrow> JStr ''pixel'')"
    by simp
  have h5: "hashable (JStr ''watercolor'')"
    by (simp add: hashable_def)
  have h6: "JStr ''cat'' = (case map_of ?d ''generatedName'' of
                      Some g \<Rightarrow> if truthy g then g else JStr ''cat''
                    | None \<Rightarrow> JStr ''cat'')"
    by simp
  have h7: "?pixel =
           (if JStr ''watercolor'' \<in> JStr ` {''pixel'', ''anime'', ''3d'', ''minimalist'', ''cartoon'', ''realistic''}
            then (case JStr ''watercolor'' of JStr s \<Rightarrow> the (map_of ART_STYLE_PROMPTS s))
            else ?pixel)"
    by simp
  from prompt_from_request [OF h1 h2 h3 h4 h5 h6 h7, of sample_env ?R]
  obtain tr where "snd (generate sample_env ?R sample_request) =
           POST (LEONARDO_BASE_URL @ ''/generations'') (request_headers sample_env)
             (payload
                (''detailed cryptocurrency mascot logo of a '' @ fmt sample_env (JStr ''cat'') @ '','' @ nl @
                 ''            '' @ ?pixel @ '','' @ nl @
                 ''            centered composition, clean vectorized style,'' @ nl @
                 ''            suitable for crypto token, professional logo design'')) # tr" ..
  then show ?thesis
    by (simp add: fmt_def)
qed

text \<open>
  C10. Two request bodies that agree on every field other than \<open>isRegeneration\<close> get,
  from the same remote behaviour, the same response and the same outbound requests.
\<close>

theorem is_regeneration_ignored:
  assumes "json_body req1 = Inr (JObj d1)" and "json_body req2 = Inr (JObj d2)"
    and "\<forall>k. k \<noteq> ''isRegeneration'' \<longrightarrow> map_of d1 k = map_of d2 k"
  shows "generate cfg rem req1 = generate cfg rem req2"
proof -
  from assms(3) have "map_of d1 ''idea'' = map_of d2 ''idea''"
    and "map_of d1 ''generatedName'' = map_of d2 ''generatedName''"
    and "map_of d1 ''artStyle'' = map_of d2 ''artStyle''"
    by simp_all
  with assms(1,2) show ?thesis
    by (simp add: generate_def generate_body_def bind_exn_def)
qed

theorem is_regeneration_ignored_witness:
  "generate sample_env \<lparr>post_reply = Inr accepted_reply, poll_reply = (\<lambda>i. Inr complete_reply)\<rparr>
     \<lparr>req_method = ''POST'', req_path = ''/api/generate'',
      json_body = Inr (JObj [(''idea'', JStr ''cat''), (''isRegeneration'', JBool True)])\<rparr> =
   generate sample_env \<lparr>post_reply = Inr accepted_reply, poll_reply = (\<lambda>i. Inr complete_reply)\<rparr>
     \<lparr>req_method = ''POST'', req_path = ''/api/generate'',
      json_body = Inr (JObj [(''isRegeneration'', JStr ''no''), (''idea'', JStr ''cat'')])\<rparr>"
proof -
  have "\<forall>k. k \<noteq> ''isRegeneration'' \<longrightarrow>
          map_of [(''idea'', JStr ''cat''), (''isRegeneration'', JBool True)] k =
          map_of [(''isRegeneration'', JStr ''no''), (''idea'', JStr ''cat'')] k"
    by simp
  from is_regeneration_ignored [OF _ _ this] show ?thesis
    by simp
qed

end
